theory Spec2Isabelle
  imports Complex_Main "HOL-Library.Word"
begin

section \<open>The arena allocator of \<^verbatim>\<open>src/arena.c\<close>\<close>

text \<open>
  The allocator is embedded for an LP64 target: \<^verbatim>\<open>size_t\<close> and the numeric value of a
  \<^verbatim>\<open>char*\<close> are 64-bit words, so that \<open>+\<close>, \<open>-\<close> and \<open>*\<close> wrap around as the machine's do,
  \<open>mod\<close> is the unsigned remainder and \<open><\<close> the unsigned comparison. Memory is flat: one
  byte for every address. The \<^verbatim>\<open>Arena\<close> record itself is kept beside the memory (the program
  never reaches it through a buffer pointer).
\<close>

type_synonym addr = "64 word"
type_synonym size_t = "64 word"
type_synonym byte = "8 word"
type_synonym memory = "addr \<Rightarrow> byte"

subsection \<open>\<^verbatim>\<open>arena.h\<close>: the data\<close>

text \<open>The enumeration \<^verbatim>\<open>ArenaError\<close>; its enumerators have the values 0, 1 and 2.\<close>

datatype ArenaError =
  ARENA_SUCCESS
| ARENA_ERROR_ALLOCATION_FAILED
| ARENA_ERROR_REALLOCATION_FAILED

fun error_code :: "ArenaError \<Rightarrow> int" where
  "error_code ARENA_SUCCESS = 0"
| "error_code ARENA_ERROR_ALLOCATION_FAILED = 1"
| "error_code ARENA_ERROR_REALLOCATION_FAILED = 2"

text \<open>
  \<^verbatim>\<open>struct Arena\<close>. The field \<^verbatim>\<open>size\<close> is called \<open>size_a\<close> here, \<open>size\<close> being a constant
  of HOL.
\<close>

record Arena =
  start :: addr
  current :: addr
  size_a :: size_t

text \<open>The program state: the arena record and the memory its pointers point into.\<close>

record heap_state =
  arena :: Arena
  mem :: memory

subsection \<open>The C library\<close>

text \<open>
  What \<^verbatim>\<open>malloc\<close> and \<^verbatim>\<open>realloc\<close> answer is the environment's choice, so it is a parameter of
  every operation that calls them: either the request is refused (the call returns
  \<^verbatim>\<open>NULL\<close>, address 0), or it is granted at an address, together with the bytes memory
  holds afterwards wherever the C standard promises nothing.
\<close>

datatype alloc_reply = Refused | Granted addr memory

text \<open>
  \<^verbatim>\<open>malloc\<close>: the contents of the new block are indeterminate.
\<close>

definition malloc :: "alloc_reply \<Rightarrow> memory \<Rightarrow> addr \<times> memory" where
  "malloc reply m =
     (case reply of
        Refused \<Rightarrow> (0, m)
      | Granted q junk \<Rightarrow> if q = 0 then (0, m) else (q, junk))"

text \<open>
  \<^verbatim>\<open>realloc(p, newsz)\<close> on a block of \<open>oldsz\<close> bytes at \<open>p\<close>: on success the new block
  holds the old contents up to the smaller of the two sizes, and everything else is
  indeterminate; on failure nothing changes.
\<close>

definition realloc :: "alloc_reply \<Rightarrow> memory \<Rightarrow> addr \<Rightarrow> size_t \<Rightarrow> size_t \<Rightarrow> addr \<times> memory" where
  "realloc reply m p oldsz newsz =
     (case reply of
        Refused \<Rightarrow> (0, m)
      | Granted q junk \<Rightarrow>
          if q = 0 then (0, m)
          else (q, \<lambda>a. if a - q < min oldsz newsz then m (p + (a - q)) else junk a))"

text \<open>\<^verbatim>\<open>memset(p, c, n)\<close>: the \<open>n\<close> bytes from \<open>p\<close> on become \<open>c\<close>.\<close>

definition memset :: "memory \<Rightarrow> addr \<Rightarrow> byte \<Rightarrow> size_t \<Rightarrow> memory" where
  "memset m p c n = (\<lambda>a. if a - p < n then c else m a)"

subsection \<open>\<^verbatim>\<open>arena.c\<close>: the operations\<close>

text \<open>
  \<^verbatim>\<open>arena_new\<close> calls \<^verbatim>\<open>malloc\<close> twice: for the record (\<open>record_ok\<close> says whether that
  succeeded) and for the buffer. \<open>None\<close> is the \<^verbatim>\<open>NULL\<close> it returns on failure.
\<close>

definition arena_new :: "bool \<Rightarrow> alloc_reply \<Rightarrow> memory \<Rightarrow> size_t \<Rightarrow> heap_state option" where
  "arena_new record_ok reply m initial_size =
     (if \<not> record_ok then None
      else case malloc reply m of (p, m') \<Rightarrow>
        if p = 0 then None
        else Some \<lparr>arena = \<lparr>start = p, current = p, size_a = initial_size\<rparr>, mem = m'\<rparr>)"

text \<open>
  \<^verbatim>\<open>arena_grow\<close>. The block at \<open>start\<close> was obtained with \<open>size_a\<close> bytes (by \<^verbatim>\<open>arena_new\<close>
  or by an earlier \<^verbatim>\<open>arena_grow\<close>), which is the old size \<^verbatim>\<open>realloc\<close> works from.
\<close>

definition arena_grow :: "alloc_reply \<Rightarrow> heap_state \<Rightarrow> size_t \<Rightarrow> ArenaError \<times> heap_state" where
  "arena_grow reply s additional_size =
     (let newSize = size_a (arena s) + additional_size in
      case realloc reply (mem s) (start (arena s)) (size_a (arena s)) newSize of
        (newStart, m') \<Rightarrow>
          if newStart = 0 then (ARENA_ERROR_REALLOCATION_FAILED, s)
          else
            let usedBytes = current (arena s) - start (arena s) in
            (ARENA_SUCCESS,
             \<lparr>arena = \<lparr>start = newStart, current = newStart + usedBytes, size_a = newSize\<rparr>,
              mem = m'\<rparr>))"

text \<open>
  Lines 44 and 45 of \<^verbatim>\<open>arena_allocate\<close>: the padding that rounds the cursor up to the
  alignment. The caller has excluded \<open>alignment = 0\<close>.
\<close>

definition adjustment :: "addr \<Rightarrow> size_t \<Rightarrow> size_t" where
  "adjustment cur alignment =
     (let adj = alignment - (cur mod alignment) in
      if adj = alignment then 0 else adj)"

text \<open>Lines 54 to 58: hand out the region, advance the cursor, clear the region.\<close>

definition bump :: "heap_state \<Rightarrow> size_t \<Rightarrow> size_t \<Rightarrow> addr \<times> heap_state" where
  "bump s adj sz =
     (let ptr = current (arena s) + adj in
      (ptr, \<lparr>arena = (arena s)\<lparr>current := current (arena s) + (adj + sz)\<rparr>,
             mem = memset (mem s) ptr 0 sz\<rparr>))"

text \<open>
  \<^verbatim>\<open>arena_allocate\<close>. The remainder by an alignment of 0 is undefined behaviour in C (a
  trap on the usual targets); it is the fault \<open>Division_By_Zero\<close> here. The test
  \<^verbatim>\<open>!arena_grow(...)\<close> is true exactly when the returned enumerator has the value 0. A
  returned address of 0 is \<^verbatim>\<open>NULL\<close>.
\<close>

datatype fault = Division_By_Zero

definition arena_allocate ::
  "alloc_reply \<Rightarrow> heap_state \<Rightarrow> size_t \<Rightarrow> size_t \<Rightarrow> fault + (addr \<times> heap_state)" where
  "arena_allocate reply s sz alignment =
     (if alignment = 0 then Inl Division_By_Zero
      else
        let adj = adjustment (current (arena s)) alignment in
        if current (arena s) + adj + sz > start (arena s) + size_a (arena s) then
          (case arena_grow reply s (size_a (arena s) * 2 + adj) of
             (e, s1) \<Rightarrow>
               if error_code e = 0 then Inr (0, s1)
               else Inr (bump s1 adj sz))
        else Inr (bump s adj sz))"

definition arena_reset :: "heap_state \<Rightarrow> heap_state" where
  "arena_reset s = s\<lparr>arena := (arena s)\<lparr>current := start (arena s)\<rparr>\<rparr>"

definition arena_available :: "Arena \<Rightarrow> size_t" where
  "arena_available a = size_a a - (current a - start a)"

definition arena_used :: "Arena \<Rightarrow> size_t" where
  "arena_used a = current a - start a"

text \<open>
  \<^verbatim>\<open>arena_utilization\<close>, with the real numbers in place of \<^verbatim>\<open>float\<close>: the rounding of the
  conversion, the division and the multiplication is left out. For a capacity of 0 the C
  code divides by \<^verbatim>\<open>0.0f\<close> (a NaN or an infinity), which this definition does not render:
  it is used for arenas of nonzero capacity only.
\<close>

definition arena_utilization :: "Arena \<Rightarrow> real" where
  "arena_utilization a = real (unat (arena_used a)) / real (unat (size_a a)) * 100"

subsection \<open>Well-formed arenas\<close>

text \<open>
  A live arena owns a buffer: \<open>start\<close> is not \<^verbatim>\<open>NULL\<close> and the \<open>size_a\<close> bytes from it on
  lie in the address space.
\<close>

definition live :: "Arena \<Rightarrow> bool" where
  "live a \<longleftrightarrow> start a \<noteq> 0 \<and> unat (start a) + unat (size_a a) < 2 ^ 64"

text \<open>The invariant of the data model: \<open>base \<le> cursor \<le> base + capacity\<close>.\<close>

definition cursor_in_buffer :: "Arena \<Rightarrow> bool" where
  "cursor_in_buffer a \<longleftrightarrow>
     unat (start a) \<le> unat (current a) \<and> unat (current a) \<le> unat (start a) + unat (size_a a)"

subsection \<open>The growth policy in the words of the specification\<close>

text \<open>
  The specification's formula for the capacity after a growth round, on natural numbers:
  \<open>max(capacity * 2 + padding, used + padding + size)\<close>.
\<close>

definition spec_new_capacity :: "nat \<Rightarrow> nat \<Rightarrow> nat \<Rightarrow> nat \<Rightarrow> nat" where
  "spec_new_capacity capacity used padding sz =
     max (capacity * 2 + padding) (used + padding + sz)"

subsection \<open>Scenarios\<close>

text \<open>Two memories: every byte 0, and every byte 1 (stale contents).\<close>

definition blank :: memory where
  "blank = (\<lambda>a. 0)"

definition stale :: memory where
  "stale = (\<lambda>a. 1)"

text \<open>The arena \<^verbatim>\<open>arena_new(8)\<close> returns when \<^verbatim>\<open>malloc\<close> places the buffer at address 4096.\<close>

definition fresh8 :: heap_state where
  "fresh8 = \<lparr>arena = \<lparr>start = 4096, current = 4096, size_a = 8\<rparr>, mem = blank\<rparr>"

text \<open>An arena of 8 bytes, all of them handed out and written to.\<close>

definition full8 :: heap_state where
  "full8 = \<lparr>arena = \<lparr>start = 4096, current = 4104, size_a = 8\<rparr>, mem = stale\<rparr>"

text \<open>An arena of 64 bytes whose buffer lies at address 16, with stale contents.\<close>

definition fresh64 :: heap_state where
  "fresh64 = \<lparr>arena = \<lparr>start = 16, current = 16, size_a = 64\<rparr>, mem = stale\<rparr>"

text \<open>What a caller of \<^verbatim>\<open>arena_allocate\<close> sees of the arena: the pointer and the record.\<close>

definition outcome :: "fault + (addr \<times> heap_state) \<Rightarrow> fault + (addr \<times> Arena)" where
  "outcome r = map_sum id (map_prod id arena) r"

section \<open>Properties\<close>

subsection \<open>The C library\<close>

lemma realloc_granted:
  "q \<noteq> 0 \<Longrightarrow>
   realloc (Granted q junk) m p oldsz newsz =
     (q, \<lambda>a. if a - q < min oldsz newsz then m (p + (a - q)) else junk a)"
  by (simp add: realloc_def)

lemma memset_nothing: "memset m p c 0 = m"
  by (simp add: memset_def)

subsection \<open>Growth\<close>

lemma grow_granted:
  assumes "q \<noteq> 0"
  shows "arena_grow (Granted q junk) s n =
    (ARENA_SUCCESS,
     \<lparr>arena = \<lparr>start = q, current = q + (current (arena s) - start (arena s)),
                size_a = size_a (arena s) + n\<rparr>,
      mem = (\<lambda>a. if a - q < min (size_a (arena s)) (size_a (arena s) + n)
                  then mem s (start (arena s) + (a - q)) else junk a)\<rparr>)"
  using assms by (simp add: arena_grow_def realloc_granted Let_def)

lemma grow_outcomes:
  "arena_grow reply s n = (ARENA_ERROR_REALLOCATION_FAILED, s) \<or>
   (\<exists>q junk. q \<noteq> 0 \<and> reply = Granted q junk)"
  by (cases reply) (auto simp: arena_grow_def realloc_def Let_def)

lemma grow_failed_same:
  "arena_grow reply s n = (e, s1) \<Longrightarrow> error_code e \<noteq> 0 \<Longrightarrow> s1 = s"
  by (auto simp: arena_grow_def Let_def split: prod.splits if_splits)

subsection \<open>Allocation\<close>

lemma adjustment_one: "adjustment cur 1 = 0"
  by (simp add: adjustment_def)

lemma bump_nothing: "bump s 0 0 = (current (arena s), s)"
  by (simp add: bump_def memset_nothing)

lemma bump_ptr:
  "bump s adj sz = (p, s') \<Longrightarrow>
   p = current (arena s) + adj \<and> start (arena s') = start (arena s)"
  by (auto simp: bump_def Let_def)

lemma bump_zeroed:
  assumes "bump s adj sz = (p, s')" and "i < sz"
  shows "mem s' (p + i) = 0"
  using assms by (auto simp: bump_def memset_def Let_def)

text \<open>
  A call that returns a pointer other than \<^verbatim>\<open>NULL\<close> returns the cursor rounded up, in the
  buffer it started with.
\<close>

lemma allocate_ptr:
  assumes "arena_allocate reply s sz alignment = Inr (p, s')" and "p \<noteq> 0"
  shows "p = current (arena s) + adjustment (current (arena s)) alignment
         \<and> start (arena s') = start (arena s)"
  using assms
  by (auto simp: arena_allocate_def Let_def split: if_splits prod.splits
           dest: bump_ptr grow_failed_same)

subsection \<open>The fit test and the grown size\<close>

text \<open>The padding is smaller than the alignment.\<close>

lemma adjustment_less:
  assumes "alignment \<noteq> 0"
  shows "unat (adjustment cur alignment) < unat alignment"
proof -
  define r where "r = cur mod alignment"
  from assms have pos: "0 < unat alignment"
    by (simp add: unat_gt_0)
  have r: "unat r < unat alignment"
    unfolding r_def using pos by (simp add: unat_mod)
  then have "r \<le> alignment" by (simp add: word_le_nat_alt)
  then have sub: "unat (alignment - r) = unat alignment - unat r"
    by (rule unat_sub)
  show ?thesis
  proof (cases "alignment - r = alignment")
    case True
    then show ?thesis using pos by (simp add: adjustment_def r_def)
  next
    case False
    then have "r \<noteq> 0" by auto
    then have "0 < unat r" by (simp add: unat_gt_0)
    with sub r have "unat (alignment - r) < unat alignment" by simp
    with False show ?thesis by (simp add: adjustment_def r_def)
  qed
qed

text \<open>When nothing wraps, the test of line 48 is the comparison of the sums.\<close>

lemma fit_test_exact:
  assumes "live (arena s)"
    and "unat (current (arena s)) + unat adj + unat sz < 2 ^ 64"
  shows "start (arena s) + size_a (arena s) < current (arena s) + adj + sz \<longleftrightarrow>
         unat (start (arena s)) + unat (size_a (arena s))
           < unat (current (arena s)) + unat adj + unat sz"
proof -
  from assms(1)
  have l: "unat (start (arena s) + size_a (arena s))
             = unat (start (arena s)) + unat (size_a (arena s))"
    by (simp add: live_def unat_add_lem [THEN iffD1])
  from assms(2) have "unat (current (arena s)) + unat adj < 2 ^ 64" by simp
  then have "unat (current (arena s) + adj) = unat (current (arena s)) + unat adj"
    by (simp add: unat_add_lem [THEN iffD1])
  with assms(2)
  have r: "unat (current (arena s) + adj + sz)
             = unat (current (arena s)) + unat adj + unat sz"
    by (simp add: unat_add_lem [THEN iffD1])
  show ?thesis by (simp add: word_less_nat_alt l r)
qed

lemma grown_size:
  fixes c adj :: size_t
  assumes "unat c < 2 ^ 62" and "unat adj < 2 ^ 62"
  shows "unat (c + (c * 2 + adj)) = unat c * 3 + unat adj"
proof -
  from assms(1) have "unat c * unat (2 :: size_t) < 2 ^ 64" by simp
  then have m: "unat (c * 2) = unat c * 2"
    by (simp add: unat_mult_lem [THEN iffD1])
  with assms have "unat (c * 2) + unat adj < 2 ^ 64" by simp
  then have a: "unat (c * 2 + adj) = unat c * 2 + unat adj"
    by (simp add: unat_add_lem [THEN iffD1] m)
  with assms have "unat c + unat (c * 2 + adj) < 2 ^ 64" by simp
  then have "unat (c + (c * 2 + adj)) = unat c + unat (c * 2 + adj)"
    using unat_add_lem [of c "c * 2 + adj"] by simp
  also have "\<dots> = unat c * 3 + unat adj"
    using a by simp
  finally show ?thesis .
qed

lemma allocate_grows:
  assumes "alignment \<noteq> 0" and "q \<noteq> 0"
    and "start (arena s) + size_a (arena s)
           < current (arena s) + adjustment (current (arena s)) alignment + sz"
  shows "\<exists>s'. arena_allocate (Granted q junk) s sz alignment = Inr (0, s')
           \<and> size_a (arena s') =
               size_a (arena s)
               + (size_a (arena s) * 2 + adjustment (current (arena s)) alignment)"
  using assms by (simp add: arena_allocate_def grow_granted Let_def)

text \<open>
  The test of line 48 is computed in 64-bit arithmetic: a request of \<open>2 ^ 64 - 1\<close> bytes
  wraps its left-hand side to below the end of the buffer, and nothing grows.
\<close>

lemma fit_test_wraps:
  "outcome (arena_allocate reply fresh8 (- 1) 1)
     = Inr (4096, \<lparr>start = 4096, current = 4095, size_a = 8\<rparr>)"
  by (simp add: outcome_def arena_allocate_def adjustment_one fresh8_def bump_def)

subsection \<open>Rounding up to a power of two\<close>

lemma round_up_take_bit:
  fixes cur :: "64 word"
  shows "take_bit k (cur + (2 ^ k - take_bit k cur)) = 0"
proof -
  define hi where "hi = drop_bit k cur"
  define lo where "lo = take_bit k cur"
  have "cur = push_bit k hi + lo"
    unfolding hi_def lo_def by (simp add: bits_ident)
  also have "\<dots> + (2 ^ k - lo) = push_bit k (hi + 1)"
    by (simp add: push_bit_eq_mult distrib_right)
  finally show ?thesis
    unfolding lo_def by (simp add: take_bit_push_bit)
qed

lemma adjustment_aligns:
  assumes "alignment = 2 ^ k"
  shows "(cur + adjustment cur alignment) mod alignment = 0"
proof -
  have tb: "\<And>w :: 64 word. w mod 2 ^ k = take_bit k w"
    by (simp add: take_bit_eq_mod)
  show ?thesis using assms round_up_take_bit [of k cur]
    by (auto simp: adjustment_def Let_def tb)
qed

lemma diff_aligned:
  fixes p b :: "64 word"
  assumes "p mod 2 ^ k = 0" and "b mod 2 ^ k = 0"
  shows "(p - b) mod 2 ^ k = 0"
proof -
  from assms have "take_bit k p = 0" "take_bit k b = 0"
    by (simp_all add: take_bit_eq_mod)
  with bits_ident [of k p] bits_ident [of k b]
  have "push_bit k (drop_bit k p) = p" "push_bit k (drop_bit k b) = b"
    by simp_all
  then have "p - b = push_bit k (drop_bit k p) - push_bit k (drop_bit k b)"
    by simp
  also have "\<dots> = push_bit k (drop_bit k p - drop_bit k b)"
    by (simp add: push_bit_eq_mult left_diff_distrib)
  finally have "take_bit k (p - b) = 0"
    by (simp add: take_bit_push_bit)
  then show ?thesis by (simp add: take_bit_eq_mod)
qed

section \<open>The claims\<close>

text \<open>
  C1. The claim: \<^verbatim>\<open>arena_allocate\<close> fails exactly when the growth it triggered fails, and
  returns a valid region whenever growth succeeds. The code does the opposite after a
  growth: \<^verbatim>\<open>!arena_grow(...)\<close> is true for \<^verbatim>\<open>ARENA_SUCCESS\<close>, whose value is 0. In the
  specification's scenario, an arena of capacity 8 asked for 10 bytes with alignment 1,
  the reallocation to 24 bytes succeeds, and the call returns \<^verbatim>\<open>NULL\<close> with nothing
  allocated: \<open>used\<close> is 0, not 10.
\<close>

theorem allocate_null_after_successful_growth:
  "arena_new True (Granted 4096 blank) blank 8 = Some fresh8
   \<and> fst (arena_grow (Granted 8192 blank) fresh8 (8 * 2 + 0)) = ARENA_SUCCESS
   \<and> outcome (arena_allocate (Granted 8192 blank) fresh8 10 1)
       = Inr (0, \<lparr>start = 8192, current = 8192, size_a = 24\<rparr>)
   \<and> arena_used \<lparr>start = 8192, current = 8192, size_a = 24\<rparr> = 0"
  by (simp add: arena_new_def malloc_def fresh8_def outcome_def arena_allocate_def
      adjustment_one grow_granted arena_used_def)

text \<open>
  C2. The claim: when the request does not fit, the capacity after growth is
  \<open>max(capacity * 2 + padding, used + padding + size)\<close>, so that one growth round always
  makes the request fit. Counterexample: an empty arena of capacity 8 asked for 100 bytes
  with alignment 1 grows to 24 bytes, where the formula gives 100; and 24 bytes do not
  hold the request.
\<close>

theorem growth_policy_counterexample:
  "fst (arena_grow (Granted 8192 blank) fresh8 (8 * 2 + 0)) = ARENA_SUCCESS
   \<and> outcome (arena_allocate (Granted 8192 blank) fresh8 100 1)
       = Inr (0, \<lparr>start = 8192, current = 8192, size_a = 24\<rparr>)
   \<and> spec_new_capacity 8 0 0 100 = 100
   \<and> unat (24 :: size_t) \<noteq> spec_new_capacity 8 0 0 100
   \<and> unat (24 :: size_t) < 0 + 0 + 100"
  by (simp add: fresh8_def outcome_def arena_allocate_def adjustment_one grow_granted
      spec_new_capacity_def)

text \<open>
  C2, amended. Take a live arena of capacity below \<open>2 ^ 62\<close>, an alignment that is not 0
  and at most \<open>2 ^ 62\<close>, and a request whose \<open>cursor + padding + size\<close> exceeds
  \<open>base + capacity\<close> and stays below \<open>2 ^ 64\<close>, so that nothing wraps around in \<^verbatim>\<open>size_t\<close>.
  When the reallocation is granted, the new capacity is at least \<open>capacity * 2 + padding\<close>,
  and it is the same for every such requested size: the requested size does not enter
  the new capacity.
\<close>

theorem growth_policy:
  assumes al: "alignment \<noteq> 0" "unat alignment \<le> 2 ^ 62" and q: "q \<noteq> 0"
    and live: "live (arena s)"
    and cap: "unat (size_a (arena s)) < 2 ^ 62"
    and nowrap1: "unat (current (arena s)) + unat (adjustment (current (arena s)) alignment)
                   + unat sz1 < 2 ^ 64"
    and exceeds1: "unat (start (arena s)) + unat (size_a (arena s))
                   < unat (current (arena s)) + unat (adjustment (current (arena s)) alignment)
                     + unat sz1"
    and nowrap2: "unat (current (arena s)) + unat (adjustment (current (arena s)) alignment)
                   + unat sz2 < 2 ^ 64"
    and exceeds2: "unat (start (arena s)) + unat (size_a (arena s))
                   < unat (current (arena s)) + unat (adjustment (current (arena s)) alignment)
                     + unat sz2"
  shows "\<exists>p1 s1 p2 s2.
           arena_allocate (Granted q junk) s sz1 alignment = Inr (p1, s1)
         \<and> arena_allocate (Granted q junk) s sz2 alignment = Inr (p2, s2)
         \<and> size_a (arena s1) = size_a (arena s2)
         \<and> unat (size_a (arena s)) * 2 + unat (adjustment (current (arena s)) alignment)
             \<le> unat (size_a (arena s1))"
proof -
  let ?adj = "adjustment (current (arena s)) alignment"
  let ?new = "size_a (arena s) + (size_a (arena s) * 2 + ?adj)"
  from fit_test_exact [OF live nowrap1] exceeds1
  have t1: "start (arena s) + size_a (arena s) < current (arena s) + ?adj + sz1" by simp
  from fit_test_exact [OF live nowrap2] exceeds2
  have t2: "start (arena s) + size_a (arena s) < current (arena s) + ?adj + sz2" by simp
  from allocate_grows [OF al(1) q t1, of junk]
  obtain s1 where s1: "arena_allocate (Granted q junk) s sz1 alignment = Inr (0, s1)"
    and c1: "size_a (arena s1) = ?new" by blast
  from allocate_grows [OF al(1) q t2, of junk]
  obtain s2 where s2: "arena_allocate (Granted q junk) s sz2 alignment = Inr (0, s2)"
    and c2: "size_a (arena s2) = ?new" by blast
  from adjustment_less [OF al(1), of "current (arena s)"] al(2)
  have "unat ?adj < 2 ^ 62" by simp
  from grown_size [OF cap this] c1
  have "unat (size_a (arena s)) * 2 + unat ?adj \<le> unat (size_a (arena s1))" by simp
  with s1 s2 c1 c2 show ?thesis by simp
qed

theorem growth_policy_witness:
  "(8 :: size_t) \<noteq> 0 \<and> unat (8 :: size_t) \<le> 2 ^ 62 \<and> (8192 :: addr) \<noteq> 0
   \<and> live (arena (snd (bump fresh8 0 4)))
   \<and> unat (size_a (arena (snd (bump fresh8 0 4)))) < 2 ^ 62
   \<and> adjustment (current (arena (snd (bump fresh8 0 4)))) 8 = 4
   \<and> unat (current (arena (snd (bump fresh8 0 4)))) + unat (4 :: size_t) + unat (4 :: size_t)
        < 2 ^ 64
   \<and> unat (start (arena (snd (bump fresh8 0 4)))) + unat (size_a (arena (snd (bump fresh8 0 4))))
        < unat (current (arena (snd (bump fresh8 0 4)))) + unat (4 :: size_t) + unat (4 :: size_t)
   \<and> unat (current (arena (snd (bump fresh8 0 4)))) + unat (4 :: size_t) + unat (100 :: size_t)
        < 2 ^ 64
   \<and> unat (start (arena (snd (bump fresh8 0 4)))) + unat (size_a (arena (snd (bump fresh8 0 4))))
        < unat (current (arena (snd (bump fresh8 0 4)))) + unat (4 :: size_t) + unat (100 :: size_t)
   \<and> (\<exists>p1 s1 p2 s2.
           arena_allocate (Granted 8192 blank) (snd (bump fresh8 0 4)) 4 8 = Inr (p1, s1)
         \<and> arena_allocate (Granted 8192 blank) (snd (bump fresh8 0 4)) 100 8 = Inr (p2, s2)
         \<and> size_a (arena s1) = size_a (arena s2)
         \<and> unat (size_a (arena (snd (bump fresh8 0 4)))) * 2 + unat (4 :: size_t)
             \<le> unat (size_a (arena s1)))"
proof -
  let ?s = "snd (bump fresh8 0 4)"
  have a: "arena ?s = \<lparr>start = 4096, current = 4100, size_a = 8\<rparr>"
    by (simp add: bump_def fresh8_def)
  have adj: "adjustment (current (arena ?s)) 8 = 4"
    by (simp add: a adjustment_def)
  have h1: "(8 :: size_t) \<noteq> 0" and h2: "unat (8 :: size_t) \<le> 2 ^ 62"
    and h3: "(8192 :: addr) \<noteq> 0"
    by simp_all
  have h4: "live (arena ?s)"
    by (simp add: a live_def)
  have h5: "unat (size_a (arena ?s)) < 2 ^ 62"
    by (simp add: a)
  have h6: "unat (current (arena ?s)) + unat (adjustment (current (arena ?s)) 8)
              + unat (4 :: size_t) < 2 ^ 64"
    unfolding adj by (simp add: a)
  have h7: "unat (start (arena ?s)) + unat (size_a (arena ?s))
              < unat (current (arena ?s)) + unat (adjustment (current (arena ?s)) 8)
                + unat (4 :: size_t)"
    unfolding adj by (simp add: a)
  have h8: "unat (current (arena ?s)) + unat (adjustment (current (arena ?s)) 8)
              + unat (100 :: size_t) < 2 ^ 64"
    unfolding adj by (simp add: a)
  have h9: "unat (start (arena ?s)) + unat (size_a (arena ?s))
              < unat (current (arena ?s)) + unat (adjustment (current (arena ?s)) 8)
                + unat (100 :: size_t)"
    unfolding adj by (simp add: a)
  note concl = growth_policy [OF h1 h2 h3 h4 h5 h6 h7 h8 h9, of blank, unfolded adj]
  from h1 h2 h3 h4 h5 adj h6 [unfolded adj] h7 [unfolded adj] h8 [unfolded adj]
    h9 [unfolded adj] concl
  show ?thesis by (intro conjI)
qed

text \<open>
  C3. The claim: in every reachable state \<open>base \<le> cursor \<le> base + capacity\<close>, and the
  capacity never decreases. From the arena \<^verbatim>\<open>arena_new(8)\<close> returns, a request for 10
  bytes whose reallocation is refused is not stopped by the inverted test of the result
  of \<^verbatim>\<open>arena_grow\<close>: the call returns the old cursor and moves the cursor 10 bytes into a
  buffer of 8.
\<close>

theorem cursor_leaves_buffer_after_failed_growth:
  "arena_new True (Granted 4096 blank) blank 8 = Some fresh8
   \<and> cursor_in_buffer (arena fresh8)
   \<and> arena_grow Refused fresh8 (8 * 2 + 0) = (ARENA_ERROR_REALLOCATION_FAILED, fresh8)
   \<and> outcome (arena_allocate Refused fresh8 10 1)
       = Inr (4096, \<lparr>start = 4096, current = 4106, size_a = 8\<rparr>)
   \<and> \<not> cursor_in_buffer \<lparr>start = 4096, current = 4106, size_a = 8\<rparr>"
  by (simp add: arena_new_def malloc_def fresh8_def outcome_def arena_allocate_def
      adjustment_one arena_grow_def realloc_def bump_def cursor_in_buffer_def)

text \<open>
  C4. The claim: for every additional size \<open>n\<close>, \<^verbatim>\<open>arena_grow\<close> either succeeds, with the
  capacity \<open>capacity + n\<close>, the first \<open>used\<close> bytes preserved and \<open>used\<close> unchanged, or fails
  and changes nothing. Counterexample: the sum \<open>capacity + n\<close> is computed in \<^verbatim>\<open>size_t\<close>
  and wraps around. A full arena of 8 bytes grown by \<open>2 ^ 64 - 1\<close> is reallocated to 7
  bytes; the call succeeds, the capacity has gone down to 7, and the eighth of the 8 used
  bytes is not carried over.
\<close>

theorem grow_wraps_counterexample:
  "fst (arena_grow (Granted 8192 blank) full8 (- 1)) = ARENA_SUCCESS
   \<and> size_a (arena (snd (arena_grow (Granted 8192 blank) full8 (- 1)))) = 7
   \<and> unat (size_a (arena full8)) + unat (- 1 :: size_t) \<noteq> 7
   \<and> (7 :: size_t) < arena_used (arena full8)
   \<and> mem (snd (arena_grow (Granted 8192 blank) full8 (- 1))) (8192 + 7)
       \<noteq> mem full8 (4096 + 7)"
  by (simp add: grow_granted full8_def arena_used_def blank_def stale_def)

text \<open>
  C4, amended. For an arena whose cursor lies in its buffer and an additional size \<open>n\<close>
  with \<open>capacity + n\<close> below \<open>2 ^ 64\<close>, \<^verbatim>\<open>arena_grow\<close> either fails with
  \<^verbatim>\<open>ARENA_ERROR_REALLOCATION_FAILED\<close> and leaves the whole state as it was, or succeeds:
  then the capacity is \<open>capacity + n\<close>, the cursor is the new base plus \<open>used\<close>, \<open>used\<close> is
  unchanged, and each of the first \<open>used\<close> bytes of the new buffer is the byte at the same
  offset of the old one.
\<close>

theorem grow_correct:
  assumes inv: "cursor_in_buffer (arena s)"
    and nowrap: "unat (size_a (arena s)) + unat n < 2 ^ 64"
  shows "arena_grow reply s n = (ARENA_ERROR_REALLOCATION_FAILED, s) \<or>
    (\<exists>s'. arena_grow reply s n = (ARENA_SUCCESS, s')
       \<and> unat (size_a (arena s')) = unat (size_a (arena s)) + unat n
       \<and> current (arena s') = start (arena s') + arena_used (arena s)
       \<and> arena_used (arena s') = arena_used (arena s)
       \<and> (\<forall>i. i < arena_used (arena s) \<longrightarrow>
             mem s' (start (arena s') + i) = mem s (start (arena s) + i)))"
proof -
  consider "arena_grow reply s n = (ARENA_ERROR_REALLOCATION_FAILED, s)"
    | q junk where "q \<noteq> 0" "reply = Granted q junk"
    using grow_outcomes by blast
  then show ?thesis
  proof cases
    case 1
    then show ?thesis by simp
  next
    case 2
    have sz: "unat (size_a (arena s) + n) = unat (size_a (arena s)) + unat n"
      using nowrap by (simp add: unat_add_lem [THEN iffD1])
    then have le: "size_a (arena s) \<le> size_a (arena s) + n"
      by (simp add: word_le_nat_alt)
    from inv have "unat (current (arena s) - start (arena s)) \<le> unat (size_a (arena s))"
      by (auto simp: cursor_in_buffer_def unat_sub word_le_nat_alt)
    then have used: "arena_used (arena s) \<le> size_a (arena s)"
      by (simp add: arena_used_def word_le_nat_alt)
    have "i < size_a (arena s)" if "i < arena_used (arena s)" for i
      using that used by simp
    with le 2 sz show ?thesis
      by (simp add: grow_granted arena_used_def min_def)
  qed
qed

theorem grow_correct_witness:
  "cursor_in_buffer (arena full8)
   \<and> unat (size_a (arena full8)) + unat (16 :: size_t) < 2 ^ 64
   \<and> (7 :: size_t) < arena_used (arena full8)
   \<and> fst (arena_grow (Granted 8192 blank) full8 16) = ARENA_SUCCESS
   \<and> unat (size_a (arena (snd (arena_grow (Granted 8192 blank) full8 16)))) = 24
   \<and> arena_used (arena (snd (arena_grow (Granted 8192 blank) full8 16))) = 8
   \<and> mem (snd (arena_grow (Granted 8192 blank) full8 16)) (8192 + 7) = mem full8 (4096 + 7)"
proof -
  have h1: "cursor_in_buffer (arena full8)"
    by (simp add: cursor_in_buffer_def full8_def)
  have h2: "unat (size_a (arena full8)) + unat (16 :: size_t) < 2 ^ 64"
    by (simp add: full8_def)
  have h3: "(7 :: size_t) < arena_used (arena full8)"
    by (simp add: full8_def arena_used_def)
  have ok: "fst (arena_grow (Granted 8192 blank) full8 16) = ARENA_SUCCESS"
    by (simp add: grow_granted)
  have st: "start (arena (snd (arena_grow (Granted 8192 blank) full8 16))) = 8192"
    by (simp add: grow_granted)
  from grow_correct [OF h1 h2, of "Granted 8192 blank"]
  have "\<exists>s'. arena_grow (Granted 8192 blank) full8 16 = (ARENA_SUCCESS, s')
       \<and> unat (size_a (arena s')) = unat (size_a (arena full8)) + unat (16 :: size_t)
       \<and> current (arena s') = start (arena s') + arena_used (arena full8)
       \<and> arena_used (arena s') = arena_used (arena full8)
       \<and> (\<forall>i. i < arena_used (arena full8) \<longrightarrow>
             mem s' (start (arena s') + i) = mem full8 (start (arena full8) + i))"
  proof
    assume "arena_grow (Granted 8192 blank) full8 16 = (ARENA_ERROR_REALLOCATION_FAILED, full8)"
    with ok show ?thesis by simp
  qed
  then obtain s' where s': "arena_grow (Granted 8192 blank) full8 16 = (ARENA_SUCCESS, s')"
    and cap: "unat (size_a (arena s')) = unat (size_a (arena full8)) + unat (16 :: size_t)"
    and used: "arena_used (arena s') = arena_used (arena full8)"
    and bytes: "\<forall>i. i < arena_used (arena full8) \<longrightarrow>
                  mem s' (start (arena s') + i) = mem full8 (start (arena full8) + i)"
    by blast
  have snd: "snd (arena_grow (Granted 8192 blank) full8 16) = s'"
    by (simp only: s' snd_conv)
  from bytes h3 have "mem s' (start (arena s') + 7) = mem full8 (start (arena full8) + 7)"
    by blast
  moreover have "start (arena s') = 8192" using st by (simp only: snd)
  moreover have "start (arena full8) = 4096" by (simp add: full8_def)
  ultimately have b7: "mem s' (8192 + 7) = mem full8 (4096 + 7)"
    by (simp only:)
  have "unat (size_a (arena full8)) + unat (16 :: size_t) = 24"
    by (simp add: full8_def)
  with cap have c24: "unat (size_a (arena s')) = 24"
    by (simp only:)
  have "arena_used (arena full8) = 8"
    by (simp add: full8_def arena_used_def)
  with used have u8: "arena_used (arena s') = 8"
    by (simp only:)
  show ?thesis
    unfolding snd using h1 h2 h3 ok b7 c24 u8 by (intro conjI)
qed

text \<open>
  C5. The claim: an alignment of 0 fails fast with a reported precondition violation and
  no remainder by zero is computed. The header promises \<^verbatim>\<open>NULL\<close> for an invalid
  alignment; the code checks nothing and starts with \<^verbatim>\<open>(size_t)arena->current % alignment\<close>,
  so every call with alignment 0 divides by zero.
\<close>

theorem allocate_alignment_zero_divides_by_zero:
  "arena_allocate reply s sz 0 = Inl Division_By_Zero"
  by (simp add: arena_allocate_def)

text \<open>
  C6. Every successful call of \<^verbatim>\<open>arena_allocate\<close> (one that returns a pointer other than
  \<^verbatim>\<open>NULL\<close>) leaves each of the \<open>size\<close> bytes of the returned region zero.
\<close>

theorem allocate_zero_fills:
  assumes "arena_allocate reply s sz alignment = Inr (p, s')" and "p \<noteq> 0" and "i < sz"
  shows "mem s' (p + i) = 0"
  using assms
  by (auto simp: arena_allocate_def Let_def bump_zeroed split: if_splits prod.splits)

theorem allocate_zero_fills_witness:
  "arena_allocate Refused fresh64 4 8 = Inr (16, snd (bump fresh64 0 4))
   \<and> (16 :: addr) \<noteq> 0 \<and> (3 :: size_t) < 4
   \<and> mem fresh64 (16 + 3) = 1
   \<and> mem (snd (bump fresh64 0 4)) (16 + 3) = 0"
proof -
  have h1: "arena_allocate Refused fresh64 4 8 = Inr (16, snd (bump fresh64 0 4))"
    by (simp add: arena_allocate_def adjustment_def fresh64_def bump_def)
  have h2: "(16 :: addr) \<noteq> 0" and h3: "(3 :: size_t) < 4"
    by simp_all
  have before: "mem fresh64 (16 + 3) = 1"
    by (simp add: fresh64_def stale_def)
  from h1 h2 h3 before allocate_zero_fills [OF h1 h2 h3] show ?thesis
    by (intro conjI)
qed

text \<open>
  C7. The claim: the address a successful call returns, and equivalently its offset from
  the base, is a multiple of the alignment. Counterexample for the offset: the code
  aligns the address, so in a buffer at address 16 a request aligned to 32 is served at
  address 32, which is offset 16.
\<close>

theorem offset_alignment_counterexample:
  "outcome (arena_allocate Refused fresh64 4 32)
     = Inr (32, \<lparr>start = 16, current = 36, size_a = 64\<rparr>)
   \<and> (32 :: addr) mod 32 = 0
   \<and> ((32 :: addr) - start (arena fresh64)) mod 32 \<noteq> 0"
  by (simp add: outcome_def arena_allocate_def adjustment_def fresh64_def bump_def)

text \<open>
  C7, amended. For an alignment that is a power of two, the address a successful call
  returns is a multiple of the alignment; its offset from the base is one too when the
  base itself is a multiple of the alignment.
\<close>

theorem allocate_aligned:
  assumes "alignment = 2 ^ k" and "k < 64"
    and "arena_allocate reply s sz alignment = Inr (p, s')" and "p \<noteq> 0"
  shows "p mod alignment = 0 \<and>
         (start (arena s) mod alignment = 0 \<longrightarrow> (p - start (arena s)) mod alignment = 0)"
proof -
  from allocate_ptr [OF assms(3,4)]
  have "p = current (arena s) + adjustment (current (arena s)) alignment" by simp
  with adjustment_aligns [OF assms(1), of "current (arena s)"]
  have aligned: "p mod alignment = 0" by simp
  have "(p - start (arena s)) mod alignment = 0" if "start (arena s) mod alignment = 0"
    using aligned that unfolding assms(1) by (rule diff_aligned)
  with aligned show ?thesis by (intro conjI impI)
qed

theorem allocate_aligned_witness:
  "(8 :: size_t) = 2 ^ 3 \<and> (3 :: nat) < 64
   \<and> arena_allocate Refused (snd (bump fresh64 0 4)) 4 8
        = Inr (24, snd (bump (snd (bump fresh64 0 4)) 4 4))
   \<and> (24 :: addr) \<noteq> 0
   \<and> start (arena (snd (bump fresh64 0 4))) mod 8 = 0
   \<and> (24 :: addr) mod 8 = 0
   \<and> ((24 :: addr) - start (arena (snd (bump fresh64 0 4)))) mod 8 = 0"
proof -
  have h1: "(8 :: size_t) = 2 ^ 3" and h2: "(3 :: nat) < 64" and h4: "(24 :: addr) \<noteq> 0"
    by simp_all
  have h3: "arena_allocate Refused (snd (bump fresh64 0 4)) 4 8
              = Inr (24, snd (bump (snd (bump fresh64 0 4)) 4 4))"
    by (simp add: arena_allocate_def adjustment_def fresh64_def bump_def)
  have base: "start (arena (snd (bump fresh64 0 4))) mod 8 = 0"
    by (simp add: fresh64_def bump_def)
  from allocate_aligned [OF h1 h2 h3 h4] base
  have "(24 :: addr) mod 8 = 0"
    and "((24 :: addr) - start (arena (snd (bump fresh64 0 4)))) mod 8 = 0"
    by blast+
  with h1 h2 h3 h4 base show ?thesis by (intro conjI)
qed

text \<open>
  C8. The claim: \<^verbatim>\<open>arena_utilization\<close> returns \<open>used / capacity\<close>, a ratio between 0 and 1,
  which is also what the header documents (\<^verbatim>\<open>0.0 to 1.0\<close>). The code multiplies the ratio
  by 100: a full arena of 8 bytes has utilization 100. (At this input the conversions,
  the quotient and the product are exact in \<^verbatim>\<open>float\<close>.)
\<close>

theorem utilization_of_full_arena_is_100:
  "arena_used (arena full8) = 8 \<and> size_a (arena full8) = 8
   \<and> arena_utilization (arena full8) = 100
   \<and> \<not> arena_utilization (arena full8) \<le> 1"
  by (simp add: arena_utilization_def arena_used_def full8_def)

text \<open>
  C9. After \<^verbatim>\<open>arena_reset\<close>, \<open>used\<close> is 0, the capacity and the base are what they were,
  and no byte of memory has changed.
\<close>

theorem reset_rewinds_only:
  "arena_used (arena (arena_reset s)) = 0
   \<and> size_a (arena (arena_reset s)) = size_a (arena s)
   \<and> start (arena (arena_reset s)) = start (arena s)
   \<and> mem (arena_reset s) = mem s"
  by (simp add: arena_reset_def arena_used_def)

text \<open>
  C10. On a live arena whose cursor lies in its buffer, \<^verbatim>\<open>arena_allocate(arena, 0, 1)\<close>
  returns the cursor, which is not \<^verbatim>\<open>NULL\<close>, and leaves the whole state (the record, hence
  \<open>used\<close>, \<open>available\<close> and the capacity, and every byte of memory) as it was.
\<close>

theorem allocate_nothing:
  assumes "live (arena s)" and "cursor_in_buffer (arena s)"
  shows "arena_allocate reply s 0 1 = Inr (current (arena s), s) \<and> current (arena s) \<noteq> 0"
proof -
  from assms
  have nowrap: "unat (start (arena s) + size_a (arena s))
                  = unat (start (arena s)) + unat (size_a (arena s))"
    by (simp add: live_def unat_add_lem [THEN iffD1])
  from assms have "unat (current (arena s)) \<le> unat (start (arena s) + size_a (arena s))"
    by (simp add: nowrap cursor_in_buffer_def)
  then have fits: "\<not> start (arena s) + size_a (arena s) < current (arena s)"
    by (simp add: word_less_nat_alt)
  from assms have "unat (current (arena s)) \<noteq> 0"
    by (auto simp: live_def cursor_in_buffer_def unat_eq_0)
  then have nonnull: "current (arena s) \<noteq> 0"
    by (auto simp: unat_eq_0)
  from fits nonnull show ?thesis
    by (simp add: arena_allocate_def adjustment_one bump_nothing)
qed

theorem allocate_nothing_witness:
  "live (arena full8) \<and> cursor_in_buffer (arena full8)
   \<and> arena_allocate Refused full8 0 1 = Inr (4104, full8)"
proof -
  have h1: "live (arena full8)"
    by (simp add: live_def full8_def)
  have h2: "cursor_in_buffer (arena full8)"
    by (simp add: cursor_in_buffer_def full8_def)
  have "current (arena full8) = 4104"
    by (simp add: full8_def)
  with allocate_nothing [OF h1 h2, of Refused]
  have "arena_allocate Refused full8 0 1 = Inr (4104, full8)"
    by simp
  with h1 h2 show ?thesis by (intro conjI)
qed

end
